theory Spec2Isabelle
  imports Main "HOL-Library.Multiset" "HOL-Library.Product_Lexorder"
begin

section \<open>Values of a parsed JSON request body\<close>

text \<open>
  The route handlers destructure the parsed request body and test the fields with the
  JavaScript operators \<open>!\<close>, \<open>&&\<close>, \<open>??\<close>, \<open>!== undefined\<close>, \<open>!== null\<close>,
  \<open>typeof\<close> and \<open>Array.prototype.includes\<close>. The body is a JSON object, taken
  as the map from its keys to their values; a field that the body does not carry
  destructures to \<open>undefined\<close>. Numbers are the integer-valued ones; strings are lists
  of code units below 256.
\<close>

datatype jsval =
    JUndefined
  | JNull
  | JBool bool
  | JNum int
  | JStr string
  | JArr "jsval list"
  | JObj "(string \<times> jsval) list"

type_synonym body = "string \<rightharpoonup> jsval"

definition field :: "body \<Rightarrow> string \<Rightarrow> jsval" where
  "field b k = (case b k of None \<Rightarrow> JUndefined | Some v \<Rightarrow> v)"

text \<open>\<open>!v\<close> is \<open>\<not> truthy v\<close>: undefined, null, false, 0 and the empty string are falsy.\<close>

fun truthy :: "jsval \<Rightarrow> bool" where
  "truthy JUndefined = False"
| "truthy JNull = False"
| "truthy (JBool b) = b"
| "truthy (JNum n) = (n \<noteq> 0)"
| "truthy (JStr s) = (s \<noteq> [])"
| "truthy (JArr _) = True"
| "truthy (JObj _) = True"

text \<open>\<open>v ?? d\<close>: the default replaces undefined and null only.\<close>

fun nullish_or :: "jsval \<Rightarrow> jsval \<Rightarrow> jsval" where
  "nullish_or JUndefined d = d"
| "nullish_or JNull d = d"
| "nullish_or v d = v"

text \<open>\<open>xs.includes(v)\<close> for an array \<open>xs\<close> of strings: only an equal string is found.\<close>

fun array_includes :: "string list \<Rightarrow> jsval \<Rightarrow> bool" where
  "array_includes xs (JStr s) = (s \<in> set xs)"
| "array_includes xs _ = False"

definition validStatuses :: "string list" where
  "validStatuses = [''todo'', ''in_progress'', ''done'']"

definition validPriorities :: "string list" where
  "validPriorities = [''low'', ''medium'', ''high'']"

text \<open>
  \<open>String.prototype.trim\<close>: white space and line terminators are removed at both ends.
  Below 256 these are TAB, LF, VT, FF, CR, SPACE and NBSP.
\<close>

definition is_ws :: "char \<Rightarrow> bool" where
  "is_ws c = (of_char c \<in> {9, 10, 11, 12, 13, 32, 160::nat})"

definition trim :: "string \<Rightarrow> string" where
  "trim s = rev (dropWhile is_ws (rev (dropWhile is_ws s)))"

section \<open>The record store\<close>

text \<open>
  Modelled from the spec: the Record Store, which gives atomic single-record create,
  read, update and delete and filtered listing; its client (\<open>@/lib/prisma\<close>) and its
  schema file are not among the sources. The tables, the primary keys and the cascading
  foreign key are those of \<open>migration.sql\<close>. Timestamps are milliseconds. \<open>status\<close>
  and \<open>priority\<close> are TEXT columns, so the store itself holds any string there.
\<close>

record board =
  board_id :: string
  name :: string
  board_description :: "string option"
  color :: "string option"
  board_createdAt :: int
  board_updatedAt :: int

record task =
  task_id :: string
  title :: string
  description :: "string option"
  status :: string
  priority :: "string option"
  assignedTo :: "string option"
  dueDate :: "int option"
  createdAt :: int
  updatedAt :: int
  boardId :: string

record store =
  boards :: "board list"
  tasks :: "task list"

text \<open>
  What a request takes from its environment: the clock reading that the store stamps on
  the rows it writes, the identifier that the store generates for a new row, and the
  JavaScript \<open>Date\<close> constructor (\<open>None\<close> is an Invalid Date).
\<close>

record env =
  now :: int
  cuid :: string
  newDate :: "jsval \<Rightarrow> int option"

text \<open>A store call either throws (the handler's \<open>catch\<close> answers 500) or returns.\<close>

datatype 'a outcome = Throws | Returns 'a

datatype store_call =
    BoardFindUnique | BoardCreate | BoardDelete
  | TaskFindUnique | TaskCreate | TaskUpdate | TaskDelete

text \<open>
  The store checks the type of every argument against the column: a String column takes
  a string, a nullable String column a string or null, a nullable DateTime column a valid
  Date or null. Anything else throws a validation error.
\<close>

fun req_string :: "jsval \<Rightarrow> string outcome" where
  "req_string (JStr s) = Returns s"
| "req_string _ = Throws"

fun opt_string :: "jsval \<Rightarrow> string option outcome" where
  "opt_string (JStr s) = Returns (Some s)"
| "opt_string JNull = Returns None"
| "opt_string _ = Throws"

text \<open>The argument built by \<open>dueDate ? new Date(dueDate) : null\<close>.\<close>

datatype datearg = DateNull | DateObj "int option"

fun opt_date :: "datearg \<Rightarrow> int option outcome" where
  "opt_date DateNull = Returns None"
| "opt_date (DateObj (Some ms)) = Returns (Some ms)"
| "opt_date (DateObj None) = Throws"

definition mkDate :: "env \<Rightarrow> jsval \<Rightarrow> datearg" where
  "mkDate e v = (if truthy v then DateObj (newDate e v) else DateNull)"

fun find_board :: "board list \<Rightarrow> string \<Rightarrow> board option" where
  "find_board [] i = None"
| "find_board (b # bs) i = (if board_id b = i then Some b else find_board bs i)"

fun find_task :: "task list \<Rightarrow> string \<Rightarrow> task option" where
  "find_task [] i = None"
| "find_task (t # ts) i = (if task_id t = i then Some t else find_task ts i)"

text \<open>\<open>prisma.board.findUnique({ where: { id } })\<close>\<close>

fun board_findUnique :: "store \<Rightarrow> jsval \<Rightarrow> board option outcome" where
  "board_findUnique s (JStr i) = Returns (find_board (boards s) i)"
| "board_findUnique s _ = Throws"

text \<open>\<open>prisma.task.findUnique({ where: { id } })\<close>; a route parameter is a string.\<close>

definition task_findUnique :: "store \<Rightarrow> string \<Rightarrow> task option" where
  "task_findUnique s i = find_task (tasks s) i"

text \<open>
  \<open>prisma.task.create({ data })\<close>. The primary key and the foreign key of
  \<open>migration.sql\<close> reject a duplicate id and a \<open>boardId\<close> without its Board.
\<close>

record task_create_data =
  cd_boardId :: jsval
  cd_title :: jsval
  cd_description :: jsval
  cd_status :: jsval
  cd_priority :: jsval
  cd_assignedTo :: jsval
  cd_dueDate :: datearg

definition task_create :: "env \<Rightarrow> store \<Rightarrow> task_create_data \<Rightarrow> (task \<times> store) outcome" where
  "task_create e s d =
    (case req_string (cd_boardId d) of Throws \<Rightarrow> Throws | Returns b \<Rightarrow>
    (case req_string (cd_title d) of Throws \<Rightarrow> Throws | Returns ti \<Rightarrow>
    (case opt_string (cd_description d) of Throws \<Rightarrow> Throws | Returns de \<Rightarrow>
    (case req_string (cd_status d) of Throws \<Rightarrow> Throws | Returns st \<Rightarrow>
    (case opt_string (cd_priority d) of Throws \<Rightarrow> Throws | Returns pr \<Rightarrow>
    (case opt_string (cd_assignedTo d) of Throws \<Rightarrow> Throws | Returns asg \<Rightarrow>
    (case opt_date (cd_dueDate d) of Throws \<Rightarrow> Throws | Returns du \<Rightarrow>
       if find_task (tasks s) (cuid e) \<noteq> None then Throws
       else if find_board (boards s) b = None then Throws
       else
         let t = \<lparr>task_id = cuid e, title = ti, description = de, status = st,
                  priority = pr, assignedTo = asg, dueDate = du,
                  createdAt = now e, updatedAt = now e, boardId = b\<rparr>
         in Returns (t, s\<lparr>tasks := tasks s @ [t]\<rparr>))))))))"

section \<open>Responses\<close>

datatype payload =
    ErrorBody string
  | TaskBody task
  | TaskListBody "task list"
  | BoardBody board

type_synonym response = "payload \<times> nat"

text \<open>What a handler does: its response, the store it leaves, the store calls it made.\<close>

type_synonym run = "response \<times> store \<times> store_call list"

section \<open>POST /api/tasks\<close>

text \<open>The \<open>data\<close> object that the handler passes to \<open>prisma.task.create\<close>.\<close>

definition createData :: "env \<Rightarrow> body \<Rightarrow> task_create_data" where
  "createData e b =
    \<lparr>cd_boardId = field b ''boardId'',
     cd_title = field b ''title'',
     cd_description = nullish_or (field b ''description'') JNull,
     cd_status = nullish_or (field b ''status'') (JStr ''todo''),
     cd_priority = nullish_or (field b ''priority'') JNull,
     cd_assignedTo = nullish_or (field b ''assignedTo'') JNull,
     cd_dueDate = mkDate e (field b ''dueDate'')\<rparr>"

definition POST_tasks :: "env \<Rightarrow> store \<Rightarrow> body \<Rightarrow> run" where
  "POST_tasks e s b =
    (if \<not> truthy (field b ''boardId'') then
       ((ErrorBody ''boardId is required'', 400), s, [])
     else if \<not> truthy (field b ''title'') then
       ((ErrorBody ''title is required'', 400), s, [])
     else
       case board_findUnique s (field b ''boardId'') of
         Throws \<Rightarrow> ((ErrorBody ''Internal server error'', 500), s, [BoardFindUnique])
       | Returns None \<Rightarrow> ((ErrorBody ''Board not found'', 404), s, [BoardFindUnique])
       | Returns (Some _) \<Rightarrow>
           if truthy (field b ''status'') \<and> \<not> array_includes validStatuses (field b ''status'') then
             ((ErrorBody ''Invalid status. Must be one of: todo, in_progress, done'', 400),
              s, [BoardFindUnique])
           else if truthy (field b ''priority'')
                   \<and> \<not> array_includes validPriorities (field b ''priority'') then
             ((ErrorBody ''Invalid priority. Must be one of: low, medium, high'', 400),
              s, [BoardFindUnique])
           else
             (case task_create e s (createData e b) of
                Throws \<Rightarrow>
                  ((ErrorBody ''Internal server error'', 500), s, [BoardFindUnique, TaskCreate])
              | Returns (t, s') \<Rightarrow>
                  ((TaskBody t, 201), s', [BoardFindUnique, TaskCreate])))"

section \<open>PATCH /api/tasks/[id]\<close>

text \<open>
  \<open>updateData\<close> carries a key only for a field that is not \<open>undefined\<close>; a key that is
  missing is \<open>None\<close> here.
\<close>

record task_update_data =
  ud_title :: "jsval option"
  ud_description :: "jsval option"
  ud_status :: "jsval option"
  ud_priority :: "jsval option"
  ud_assignedTo :: "jsval option"
  ud_dueDate :: "datearg option"

definition provided :: "jsval \<Rightarrow> jsval option" where
  "provided v = (if v \<noteq> JUndefined then Some v else None)"

fun checked :: "('a \<Rightarrow> 'b outcome) \<Rightarrow> 'a option \<Rightarrow> 'b option outcome" where
  "checked f None = Returns None"
| "checked f (Some v) = (case f v of Throws \<Rightarrow> Throws | Returns x \<Rightarrow> Returns (Some x))"

definition or_keep :: "'a option \<Rightarrow> 'a \<Rightarrow> 'a" where
  "or_keep n old = (case n of None \<Rightarrow> old | Some x \<Rightarrow> x)"

text \<open>
  In the data of an update the store also takes the operation object \<open>{ set: v }\<close> for
  a column and writes \<open>v\<close>; any other object throws.
\<close>

fun upd_string :: "jsval \<Rightarrow> string outcome" where
  "upd_string (JStr s) = Returns s"
| "upd_string (JObj [(k, JStr s)]) = (if k = ''set'' then Returns s else Throws)"
| "upd_string _ = Throws"

fun upd_opt_string :: "jsval \<Rightarrow> string option outcome" where
  "upd_opt_string (JStr s) = Returns (Some s)"
| "upd_opt_string JNull = Returns None"
| "upd_opt_string (JObj [(k, JStr s)]) = (if k = ''set'' then Returns (Some s) else Throws)"
| "upd_opt_string (JObj [(k, JNull)]) = (if k = ''set'' then Returns None else Throws)"
| "upd_opt_string _ = Throws"

text \<open>\<open>data\<close> is the empty object: it names no column.\<close>

definition no_data :: "task_update_data \<Rightarrow> bool" where
  "no_data d \<longleftrightarrow>
     ud_title d = None \<and> ud_description d = None \<and> ud_status d = None
     \<and> ud_priority d = None \<and> ud_assignedTo d = None \<and> ud_dueDate d = None"

text \<open>
  \<open>prisma.task.update({ where: { id }, data })\<close>: the row keeps every column that
  \<open>data\<close> does not name. When \<open>data\<close> names a column, \<open>updatedAt\<close> takes the clock
  reading; when \<open>data\<close> is empty nothing is written, \<open>updatedAt\<close> stays, and the call
  returns the row as it is.
\<close>

definition task_update ::
  "env \<Rightarrow> store \<Rightarrow> string \<Rightarrow> task_update_data \<Rightarrow> (task \<times> store) outcome" where
  "task_update e s i d =
    (case checked upd_string (ud_title d) of Throws \<Rightarrow> Throws | Returns ti \<Rightarrow>
    (case checked upd_opt_string (ud_description d) of Throws \<Rightarrow> Throws | Returns de \<Rightarrow>
    (case checked upd_string (ud_status d) of Throws \<Rightarrow> Throws | Returns st \<Rightarrow>
    (case checked upd_opt_string (ud_priority d) of Throws \<Rightarrow> Throws | Returns pr \<Rightarrow>
    (case checked upd_opt_string (ud_assignedTo d) of Throws \<Rightarrow> Throws | Returns asg \<Rightarrow>
    (case checked opt_date (ud_dueDate d) of Throws \<Rightarrow> Throws | Returns du \<Rightarrow>
       let upd = (\<lambda>t. if no_data d then t
                       else t\<lparr>title := or_keep ti (title t),
                              description := or_keep de (description t),
                              status := or_keep st (status t),
                              priority := or_keep pr (priority t),
                              assignedTo := or_keep asg (assignedTo t),
                              dueDate := or_keep du (dueDate t),
                              updatedAt := now e\<rparr>)
       in (case find_task (tasks s) i of
             None \<Rightarrow> Throws
           | Some t \<Rightarrow>
               Returns (upd t,
                 s\<lparr>tasks := map (\<lambda>t. if task_id t = i then upd t else t) (tasks s)\<rparr>))))))))"

text \<open>\<open>updateData\<close>, built with only the fields that the body provides.\<close>

definition updateData :: "env \<Rightarrow> body \<Rightarrow> task_update_data" where
  "updateData e b =
    \<lparr>ud_title = provided (field b ''title''),
     ud_description = provided (field b ''description''),
     ud_status = provided (field b ''status''),
     ud_priority = provided (field b ''priority''),
     ud_assignedTo = provided (field b ''assignedTo''),
     ud_dueDate =
       (if field b ''dueDate'' \<noteq> JUndefined
        then Some (mkDate e (field b ''dueDate'')) else None)\<rparr>"

definition PATCH_task :: "env \<Rightarrow> store \<Rightarrow> string \<Rightarrow> body \<Rightarrow> run" where
  "PATCH_task e s i b =
    (case task_findUnique s i of
       None \<Rightarrow> ((ErrorBody ''Task not found'', 404), s, [TaskFindUnique])
     | Some _ \<Rightarrow>
         if field b ''status'' \<noteq> JUndefined
            \<and> \<not> array_includes validStatuses (field b ''status'') then
           ((ErrorBody ''Invalid status. Must be one of: todo, in_progress, done'', 400),
            s, [TaskFindUnique])
         else if field b ''priority'' \<noteq> JUndefined \<and> field b ''priority'' \<noteq> JNull
                 \<and> \<not> array_includes validPriorities (field b ''priority'') then
           ((ErrorBody ''Invalid priority. Must be one of: low, medium, high'', 400),
            s, [TaskFindUnique])
         else
           (case task_update e s i (updateData e b) of
              Throws \<Rightarrow>
                ((ErrorBody ''Internal server error'', 500), s, [TaskFindUnique, TaskUpdate])
            | Returns (t, s') \<Rightarrow>
                ((TaskBody t, 200), s', [TaskFindUnique, TaskUpdate])))"

section \<open>DELETE /api/tasks/[id]\<close>

text \<open>\<open>prisma.task.delete({ where: { id } })\<close> returns the row it removes.\<close>

definition task_delete :: "store \<Rightarrow> string \<Rightarrow> (task \<times> store) outcome" where
  "task_delete s i =
    (case find_task (tasks s) i of
       None \<Rightarrow> Throws
     | Some t \<Rightarrow> Returns (t, s\<lparr>tasks := filter (\<lambda>t. task_id t \<noteq> i) (tasks s)\<rparr>))"

definition DELETE_task :: "store \<Rightarrow> string \<Rightarrow> run" where
  "DELETE_task s i =
    (case task_findUnique s i of
       None \<Rightarrow> ((ErrorBody ''Task not found'', 404), s, [TaskFindUnique])
     | Some _ \<Rightarrow>
         (case task_delete s i of
            Throws \<Rightarrow>
              ((ErrorBody ''Internal server error'', 500), s, [TaskFindUnique, TaskDelete])
          | Returns (t, s') \<Rightarrow> ((TaskBody t, 200), s', [TaskFindUnique, TaskDelete])))"

section \<open>POST /api/boards and DELETE /api/boards/[id]\<close>

record board_create_data =
  bd_name :: string
  bd_description :: jsval
  bd_color :: jsval

definition board_create :: "env \<Rightarrow> store \<Rightarrow> board_create_data \<Rightarrow> (board \<times> store) outcome" where
  "board_create e s d =
    (case opt_string (bd_description d) of Throws \<Rightarrow> Throws | Returns de \<Rightarrow>
    (case opt_string (bd_color d) of Throws \<Rightarrow> Throws | Returns co \<Rightarrow>
       if find_board (boards s) (cuid e) \<noteq> None then Throws
       else
         let b = \<lparr>board_id = cuid e, name = bd_name d, board_description = de, color = co,
                  board_createdAt = now e, board_updatedAt = now e\<rparr>
         in Returns (b, s\<lparr>boards := boards s @ [b]\<rparr>)))"

text \<open>
  \<open>!name || typeof name !== 'string' || name.trim() === ''\<close>: past this test the name
  is a string, which \<open>name.trim()\<close> needs.
\<close>

fun name_missing :: "jsval \<Rightarrow> bool" where
  "name_missing (JStr n) = (\<not> truthy (JStr n) \<or> trim n = [])"
| "name_missing v = True"

fun string_of :: "jsval \<Rightarrow> string" where
  "string_of (JStr n) = n"
| "string_of v = []"

definition POST_boards :: "env \<Rightarrow> store \<Rightarrow> body \<Rightarrow> run" where
  "POST_boards e s b =
    (if name_missing (field b ''name'') then
       ((ErrorBody ''Name is required'', 400), s, [])
     else
       case board_create e s
              \<lparr>bd_name = trim (string_of (field b ''name'')),
               bd_description = nullish_or (field b ''description'') JNull,
               bd_color = nullish_or (field b ''color'') JNull\<rparr> of
         Throws \<Rightarrow> ((ErrorBody ''Failed to create board'', 500), s, [BoardCreate])
       | Returns (bo, s') \<Rightarrow> ((BoardBody bo, 201), s', [BoardCreate]))"

text \<open>
  \<open>prisma.board.delete({ where: { id } })\<close>. The foreign key of \<open>migration.sql\<close> is
  \<open>ON DELETE CASCADE\<close>: the Tasks of the Board go with it.
\<close>

definition board_delete :: "store \<Rightarrow> string \<Rightarrow> (board \<times> store) outcome" where
  "board_delete s i =
    (case find_board (boards s) i of
       None \<Rightarrow> Throws
     | Some b \<Rightarrow>
         Returns (b, s\<lparr>boards := filter (\<lambda>b. board_id b \<noteq> i) (boards s),
                        tasks := filter (\<lambda>t. boardId t \<noteq> i) (tasks s)\<rparr>))"

definition DELETE_board :: "store \<Rightarrow> string \<Rightarrow> run" where
  "DELETE_board s i =
    (case find_board (boards s) i of
       None \<Rightarrow> ((ErrorBody ''Board not found'', 404), s, [BoardFindUnique])
     | Some _ \<Rightarrow>
         (case board_delete s i of
            Throws \<Rightarrow>
              ((ErrorBody ''Failed to delete board'', 500), s, [BoardFindUnique, BoardDelete])
          | Returns (bo, s') \<Rightarrow>
              ((BoardBody bo, 200), s', [BoardFindUnique, BoardDelete])))"

section \<open>GET /api/tasks?boardId=X\<close>

text \<open>
  \<open>prisma.task.findMany({ where: { boardId }, orderBy: [{ order: 'asc' },
  { createdAt: 'desc' }] })\<close>. The column \<open>order\<close> is declared neither in
  \<open>migration.sql\<close> nor in the \<open>Task\<close> type, so the value a row has there is the
  parameter \<open>ord\<close>. The query fixes which rows come back and how their keys are ordered;
  it does not say how rows with equal keys follow one another, so the call is modelled by
  the answers it admits.
\<close>

definition task_before :: "(task \<Rightarrow> int) \<Rightarrow> task \<Rightarrow> task \<Rightarrow> bool" where
  "task_before ord a b \<longleftrightarrow> ord a < ord b \<or> (ord a = ord b \<and> createdAt b \<le> createdAt a)"

definition findMany_tasks :: "(task \<Rightarrow> int) \<Rightarrow> store \<Rightarrow> string \<Rightarrow> task list \<Rightarrow> bool" where
  "findMany_tasks ord s b rs \<longleftrightarrow>
     mset rs = mset (filter (\<lambda>t. boardId t = b) (tasks s)) \<and> sorted_wrt (task_before ord) rs"

text \<open>
  \<open>searchParams.get('boardId')\<close> is \<open>null\<close> (here \<open>None\<close>) or a string; \<open>!boardId\<close>
  holds for \<open>null\<close> and for the empty string. \<open>GET_tasks ord s q r\<close>: the handler may
  answer \<open>r\<close>.
\<close>

definition GET_tasks :: "(task \<Rightarrow> int) \<Rightarrow> store \<Rightarrow> string option \<Rightarrow> response \<Rightarrow> bool" where
  "GET_tasks ord s q r =
    (case q of
       None \<Rightarrow> r = (ErrorBody ''boardId query parameter is required'', 400)
     | Some b \<Rightarrow>
         if b = [] then r = (ErrorBody ''boardId query parameter is required'', 400)
         else (case r of
                 (TaskListBody rs, c) \<Rightarrow> c = 200 \<and> findMany_tasks ord s b rs
               | _ \<Rightarrow> False))"

definition sort_key_of :: "(task \<Rightarrow> int) \<Rightarrow> task \<Rightarrow> int \<times> int" where
  "sort_key_of ord t = (ord t, - createdAt t)"

section \<open>The board page: optimistic updates of the local task list\<close>

text \<open>
  \<open>handleStatusChange\<close> and \<open>handleDeleteConfirm\<close> of the board page, as functions from
  the local list before the call to the local list after it. The request's result is an
  argument: \<open>None\<close> (status change) and \<open>False\<close> (delete) stand for a request that
  threw or whose response was not ok, which runs the \<open>catch\<close> branch.
\<close>

definition handleStatusChange ::
  "task list \<Rightarrow> string \<Rightarrow> string \<Rightarrow> task option \<Rightarrow> task list" where
  "handleStatusChange ts taskId newStatus res =
    (case find (\<lambda>t. task_id t = taskId) ts of
       None \<Rightarrow> ts
     | Some task \<Rightarrow>
         let previousStatus = status task;
             optimistic = map (\<lambda>t. if task_id t = taskId then t\<lparr>status := newStatus\<rparr> else t) ts
         in (case res of
               Some updatedTask \<Rightarrow>
                 map (\<lambda>t. if task_id t = taskId then updatedTask else t) optimistic
             | None \<Rightarrow>
                 map (\<lambda>t. if task_id t = taskId then t\<lparr>status := previousStatus\<rparr> else t)
                   optimistic))"

definition handleDeleteConfirm :: "task list \<Rightarrow> string option \<Rightarrow> bool \<Rightarrow> task list" where
  "handleDeleteConfirm ts deletingTaskId ok =
    (case deletingTaskId of
       None \<Rightarrow> ts
     | Some i \<Rightarrow>
         if i = [] then ts
         else (case find (\<lambda>t. task_id t = i) ts of
                 None \<Rightarrow> ts
               | Some taskToDelete \<Rightarrow>
                   let optimistic = filter (\<lambda>t. task_id t \<noteq> i) ts
                   in if ok then optimistic else optimistic @ [taskToDelete]))"

section \<open>Reading a run, and the error kinds of the specification\<close>

definition response_of :: "run \<Rightarrow> response" where
  "response_of r = fst r"

definition store_of :: "run \<Rightarrow> store" where
  "store_of r = fst (snd r)"

definition calls_of :: "run \<Rightarrow> store_call list" where
  "calls_of r = snd (snd r)"

fun is_error :: "response \<Rightarrow> bool" where
  "is_error (ErrorBody m, c) = True"
| "is_error _ = False"

text \<open>
  The specification names its errors by kind; over HTTP a kind is a status code with a
  message.
\<close>

definition MissingFieldError :: "response \<Rightarrow> bool" where
  "MissingFieldError r \<longleftrightarrow>
     r = (ErrorBody ''boardId is required'', 400) \<or> r = (ErrorBody ''title is required'', 400)
     \<or> r = (ErrorBody ''Name is required'', 400)"

definition InvalidEnumError :: "response \<Rightarrow> bool" where
  "InvalidEnumError r \<longleftrightarrow>
     r = (ErrorBody ''Invalid status. Must be one of: todo, in_progress, done'', 400)
     \<or> r = (ErrorBody ''Invalid priority. Must be one of: low, medium, high'', 400)"

definition BoardNotFoundError :: "response \<Rightarrow> bool" where
  "BoardNotFoundError r \<longleftrightarrow> r = (ErrorBody ''Board not found'', 404)"

definition NotFoundError :: "response \<Rightarrow> bool" where
  "NotFoundError r \<longleftrightarrow> r = (ErrorBody ''Task not found'', 404)"

definition MissingParameterError :: "response \<Rightarrow> bool" where
  "MissingParameterError r \<longleftrightarrow> r = (ErrorBody ''boardId query parameter is required'', 400)"

text \<open>Referential integrity: the Board of every Task is in the store.\<close>

definition ref_integrity :: "store \<Rightarrow> bool" where
  "ref_integrity s \<longleftrightarrow> list_all (\<lambda>t. find_board (boards s) (boardId t) \<noteq> None) (tasks s)"

section \<open>Example stores and requests\<close>

definition noDate :: "jsval \<Rightarrow> int option" where
  "noDate v = None"

definition env0 :: env where
  "env0 = \<lparr>now = 1000, cuid = ''t1'', newDate = noDate\<rparr>"

definition board1 :: board where
  "board1 = \<lparr>board_id = ''b1'', name = ''Launch'', board_description = None, color = None,
              board_createdAt = 1, board_updatedAt = 1\<rparr>"

definition store0 :: store where
  "store0 = \<lparr>boards = [board1], tasks = []\<rparr>"

definition taskA :: task where
  "taskA = \<lparr>task_id = ''a'', title = ''Write copy'', description = None, status = ''todo'',
             priority = None, assignedTo = None, dueDate = None,
             createdAt = 5, updatedAt = 5, boardId = ''b1''\<rparr>"

definition taskB :: task where
  "taskB = \<lparr>task_id = ''b'', title = ''Review copy'', description = None, status = ''todo'',
             priority = Some ''high'', assignedTo = None, dueDate = None,
             createdAt = 5, updatedAt = 5, boardId = ''b1''\<rparr>"

definition store2 :: store where
  "store2 = \<lparr>boards = [board1], tasks = [taskA, taskB]\<rparr>"

definition ord0 :: "task \<Rightarrow> int" where
  "ord0 t = 0"

definition task_done :: task where
  "task_done = \<lparr>task_id = ''t1'', title = ''Write copy'', description = None,
                 status = ''done'', priority = None, assignedTo = None, dueDate = None,
                 createdAt = 1000, updatedAt = 1000, boardId = ''b1''\<rparr>"

definition body_done :: body where
  "body_done = [''boardId'' \<mapsto> JStr ''b1'', ''title'' \<mapsto> JStr ''Write copy'',
                ''status'' \<mapsto> JStr ''done'']"

definition task_blank :: task where
  "task_blank = \<lparr>task_id = ''t1'', title = ''   '', description = None,
                  status = ''todo'', priority = None, assignedTo = None, dueDate = None,
                  createdAt = 1000, updatedAt = 1000, boardId = ''b1''\<rparr>"

definition body_blank_title :: body where
  "body_blank_title = [''boardId'' \<mapsto> JStr ''b1'', ''title'' \<mapsto> JStr ''   '']"

definition body_urgent :: body where
  "body_urgent = [''boardId'' \<mapsto> JStr ''b1'', ''title'' \<mapsto> JStr ''Write copy'',
                  ''priority'' \<mapsto> JStr ''urgent'']"

definition body_bogus_only :: body where
  "body_bogus_only = [''status'' \<mapsto> JStr ''bogus'']"

definition body_ghost :: body where
  "body_ghost = [''boardId'' \<mapsto> JStr ''ghost'', ''title'' \<mapsto> JStr ''Write copy'']"

definition body_ghost_untitled :: body where
  "body_ghost_untitled = [''boardId'' \<mapsto> JStr ''ghost'']"

definition patch_progress :: body where
  "patch_progress = [''status'' \<mapsto> JStr ''in_progress'']"

definition patch_bogus :: body where
  "patch_bogus = [''status'' \<mapsto> JStr ''bogus'']"

definition body_launch :: body where
  "body_launch = [''name'' \<mapsto> JStr ''  Launch '', ''color'' \<mapsto> JStr ''#6366f1'']"

definition body_numeric_title :: body where
  "body_numeric_title = [''boardId'' \<mapsto> JStr ''b1'', ''title'' \<mapsto> JNum 5]"

definition body_null_priority :: body where
  "body_null_priority = [''boardId'' \<mapsto> JStr ''b1'', ''title'' \<mapsto> JStr ''Write copy'',
                         ''priority'' \<mapsto> JNull]"

definition task_plain :: task where
  "task_plain = \<lparr>task_id = ''t1'', title = ''Write copy'', description = None,
                  status = ''todo'', priority = None, assignedTo = None, dueDate = None,
                  createdAt = 1000, updatedAt = 1000, boardId = ''b1''\<rparr>"

definition body_empty_status :: body where
  "body_empty_status = [''boardId'' \<mapsto> JStr ''b1'', ''title'' \<mapsto> JStr ''Write copy'',
                        ''status'' \<mapsto> JStr []]"

definition board2 :: board where
  "board2 = \<lparr>board_id = ''b2'', name = ''Backlog'', board_description = None, color = None,
              board_createdAt = 2, board_updatedAt = 2\<rparr>"

definition taskC :: task where
  "taskC = \<lparr>task_id = ''c'', title = ''Plan sprint'', description = None, status = ''done'',
             priority = None, assignedTo = None, dueDate = None,
             createdAt = 7, updatedAt = 7, boardId = ''b2''\<rparr>"

definition store3 :: store where
  "store3 = \<lparr>boards = [board1, board2], tasks = [taskA, taskC]\<rparr>"

definition board_launch :: board where
  "board_launch = \<lparr>board_id = ''t1'', name = ''Launch'', board_description = None,
                    color = Some ''#6366f1'', board_createdAt = 1000, board_updatedAt = 1000\<rparr>"

definition taskD :: task where
  "taskD = \<lparr>task_id = ''d'', title = ''Ship it'', description = None, status = ''todo'',
             priority = None, assignedTo = None, dueDate = None,
             createdAt = 9, updatedAt = 9, boardId = ''b1''\<rparr>"

definition store4 :: store where
  "store4 = \<lparr>boards = [board1, board2], tasks = [taskA, taskD, taskC]\<rparr>"

definition patch_empty :: body where
  "patch_empty = Map.empty"

definition patch_set_title :: body where
  "patch_set_title = [''title'' \<mapsto> JObj [(''set'', JStr ''Write copy now'')]]"

section \<open>Evaluation and inversion lemmas\<close>

lemmas ex_defs = env0_def noDate_def board1_def store0_def store2_def taskA_def taskB_def
  task_done_def body_done_def task_blank_def body_blank_title_def body_urgent_def
  body_bogus_only_def body_ghost_def body_ghost_untitled_def patch_progress_def
  patch_bogus_def body_launch_def body_numeric_title_def
  body_null_priority_def task_plain_def body_empty_status_def board2_def taskC_def
  store3_def board_launch_def taskD_def store4_def patch_empty_def
  patch_set_title_def

lemmas run_defs = response_of_def store_of_def calls_of_def

lemmas handler_defs = createData_def updateData_def POST_tasks_def PATCH_task_def
  DELETE_task_def POST_boards_def DELETE_board_def task_create_def task_update_def task_delete_def board_create_def
  board_delete_def task_findUnique_def field_def mkDate_def provided_def or_keep_def
  validStatuses_def validPriorities_def no_data_def Let_def

lemma req_string_Returns: "req_string v = Returns x \<longleftrightarrow> v = JStr x"
  by (cases v) auto

lemma task_create_Returns:
  "task_create e s d = Returns (t, s') \<Longrightarrow>
     tasks s' = tasks s @ [t] \<and> boards s' = boards s \<and> cd_status d = JStr (status t)
     \<and> cd_boardId d = JStr (boardId t) \<and> cd_title d = JStr (title t)
     \<and> find_board (boards s) (boardId t) \<noteq> None"
  by (auto simp: task_create_def Let_def req_string_Returns split: outcome.splits if_splits)

lemma POST_tasks_created:
  assumes "POST_tasks e s b = ((TaskBody t, c), s', tr)"
  shows "task_create e s (createData e b) = Returns (t, s')
     \<and> (truthy (field b ''status'') \<longrightarrow> array_includes validStatuses (field b ''status''))"
  using assms
  by (auto simp: POST_tasks_def split: if_splits outcome.splits option.splits prod.splits)

lemma run_body_done:
  "POST_tasks env0 store0 body_done =
     ((TaskBody task_done, 201), store0\<lparr>tasks := [task_done]\<rparr>, [BoardFindUnique, TaskCreate])"
  by (simp add: handler_defs ex_defs)

section \<open>The status of a created Task\<close>

text \<open>
  C1, as the code has it. A Create that succeeds inserts exactly one Task. Its status is
  \<open>todo\<close> when the request carries no status or \<open>null\<close>; when the request carries a
  non-empty string as status, that string is one of \<open>todo\<close>, \<open>in_progress\<close>, \<open>done\<close>
  and it is the status of the inserted Task.
\<close>

theorem C1_created_status:
  assumes "POST_tasks e s b = ((TaskBody t, c), s', tr)"
  shows "tasks s' = tasks s @ [t]
    \<and> (field b ''status'' \<in> {JUndefined, JNull} \<longrightarrow> status t = ''todo'')
    \<and> (\<forall>x. field b ''status'' = JStr x \<and> x \<noteq> [] \<longrightarrow> x \<in> set validStatuses \<and> status t = x)"
proof -
  from POST_tasks_created [OF assms] have
    d: "task_create e s (createData e b) = Returns (t, s')"
       "truthy (field b ''status'') \<longrightarrow> array_includes validStatuses (field b ''status'')"
    by simp_all
  from task_create_Returns [OF d(1)] have
    t: "tasks s' = tasks s @ [t]"
       "nullish_or (field b ''status'') (JStr ''todo'') = JStr (status t)"
    by (simp_all add: createData_def)
  show ?thesis using t d(2) by auto
qed

text \<open>The theorem at a request with status \<open>done\<close> on a store holding Board \<open>b1\<close>.\<close>

theorem C1_created_status_witness:
  "POST_tasks env0 store0 body_done =
     ((TaskBody task_done, 201), store0\<lparr>tasks := [task_done]\<rparr>, [BoardFindUnique, TaskCreate])
   \<and> field body_done ''status'' = JStr ''done'' \<and> ''done'' \<in> set validStatuses
   \<and> status task_done = ''done''
   \<and> tasks (store0\<lparr>tasks := [task_done]\<rparr>) = tasks store0 @ [task_done]"
  using C1_created_status [OF run_body_done] run_body_done
  by (simp add: field_def body_done_def)

text \<open>
  C1 as stated fails: the request of \<open>body_done\<close> supplies status \<open>done\<close> and the Task
  that is inserted has status \<open>done\<close>, not \<open>todo\<close>.
\<close>

theorem C1_status_override_counterexample:
  "field body_done ''status'' = JStr ''done''
   \<and> POST_tasks env0 store0 body_done =
     ((TaskBody task_done, 201), store0\<lparr>tasks := [task_done]\<rparr>, [BoardFindUnique, TaskCreate])
   \<and> status task_done \<noteq> ''todo''"
  using run_body_done by (simp add: field_def body_done_def task_done_def)

section \<open>Validation of the enumerated fields\<close>

lemma POST_invalid_enum_fails:
  assumes "(truthy (field b ''status'') \<and> \<not> array_includes validStatuses (field b ''status''))
         \<or> (truthy (field b ''priority'')
             \<and> \<not> array_includes validPriorities (field b ''priority''))"
  shows "is_error (response_of (POST_tasks e s b)) \<and> store_of (POST_tasks e s b) = s"
  using assms
  by (auto simp add: POST_tasks_def run_defs split: outcome.splits option.splits)

lemma POST_invalid_enum_kind:
  assumes "(truthy (field b ''status'') \<and> \<not> array_includes validStatuses (field b ''status''))
         \<or> (truthy (field b ''priority'')
             \<and> \<not> array_includes validPriorities (field b ''priority''))"
    and "truthy (field b ''boardId'')" and "truthy (field b ''title'')"
    and "board_findUnique s (field b ''boardId'') = Returns (Some bo)"
  shows "InvalidEnumError (response_of (POST_tasks e s b))"
  using assms
  by (auto simp add: POST_tasks_def run_defs InvalidEnumError_def)

lemma PATCH_invalid_enum_fails:
  assumes "(field b ''status'' \<noteq> JUndefined
             \<and> \<not> array_includes validStatuses (field b ''status''))
         \<or> (field b ''priority'' \<noteq> JUndefined \<and> field b ''priority'' \<noteq> JNull
             \<and> \<not> array_includes validPriorities (field b ''priority''))"
  shows "is_error (response_of (PATCH_task e s i b)) \<and> store_of (PATCH_task e s i b) = s"
  using assms
  by (auto simp add: PATCH_task_def run_defs split: option.splits)

lemma PATCH_invalid_enum_kind:
  assumes "(field b ''status'' \<noteq> JUndefined
             \<and> \<not> array_includes validStatuses (field b ''status''))
         \<or> (field b ''priority'' \<noteq> JUndefined \<and> field b ''priority'' \<noteq> JNull
             \<and> \<not> array_includes validPriorities (field b ''priority''))"
    and "task_findUnique s i = Some t"
  shows "InvalidEnumError (response_of (PATCH_task e s i b))"
  using assms
  by (auto simp add: PATCH_task_def run_defs InvalidEnumError_def)

lemma run_body_urgent:
  "POST_tasks env0 store0 body_urgent =
     ((ErrorBody ''Invalid priority. Must be one of: low, medium, high'', 400), store0,
      [BoardFindUnique])"
  by (simp add: handler_defs ex_defs)

lemma run_body_bogus_only:
  "POST_tasks env0 store0 body_bogus_only = ((ErrorBody ''boardId is required'', 400), store0, [])"
  by (simp add: handler_defs ex_defs)

lemma run_patch_bogus:
  "PATCH_task env0 store2 ''a'' patch_bogus =
     ((ErrorBody ''Invalid status. Must be one of: todo, in_progress, done'', 400), store2,
      [TaskFindUnique])"
  by (simp add: handler_defs ex_defs)

lemma run_body_null_priority:
  "POST_tasks env0 store0 body_null_priority =
     ((TaskBody task_plain, 201), store0\<lparr>tasks := [task_plain]\<rparr>,
      [BoardFindUnique, TaskCreate])"
  by (simp add: handler_defs ex_defs)

text \<open>
  Beside C2: an empty string as status passes the test \<open>status && \<dots>\<close> of
  POST /api/tasks and is not replaced by \<open>??\<close>, so the Task is stored with the status
  \<open>''''\<close>. PATCH tests \<open>status !== undefined\<close> and rejects the same value.
\<close>

lemma POST_tasks_empty_status_stored:
  "POST_tasks env0 store0 body_empty_status =
     ((TaskBody (task_plain\<lparr>status := []\<rparr>), 201),
      store0\<lparr>tasks := [task_plain\<lparr>status := []\<rparr>]\<rparr>, [BoardFindUnique, TaskCreate])"
  by (simp add: handler_defs ex_defs)

text \<open>
  C2, as the code has it. A Create whose status or priority is a truthy value outside
  its enumeration, and an Update whose status is anything but \<open>undefined\<close> outside the
  enumeration or whose priority is neither \<open>undefined\<close> nor \<open>null\<close> and outside the
  enumeration, fails and leaves the store as it was. The failure is InvalidEnumError
  when the checks that come first pass: for Create a truthy \<open>boardId\<close> and \<open>title\<close> and
  an existing Board, for Update an existing Task.
\<close>

theorem C2_invalid_enum_rejected:
  "((truthy (field b ''status'') \<and> \<not> array_includes validStatuses (field b ''status''))
     \<or> (truthy (field b ''priority'')
         \<and> \<not> array_includes validPriorities (field b ''priority''))
    \<longrightarrow> is_error (response_of (POST_tasks e s b)) \<and> store_of (POST_tasks e s b) = s
        \<and> (truthy (field b ''boardId'') \<and> truthy (field b ''title'')
             \<and> board_findUnique s (field b ''boardId'') = Returns (Some bo)
            \<longrightarrow> InvalidEnumError (response_of (POST_tasks e s b))))
   \<and> ((field b ''status'' \<noteq> JUndefined
         \<and> \<not> array_includes validStatuses (field b ''status''))
       \<or> (field b ''priority'' \<noteq> JUndefined \<and> field b ''priority'' \<noteq> JNull
           \<and> \<not> array_includes validPriorities (field b ''priority''))
    \<longrightarrow> is_error (response_of (PATCH_task e s i b)) \<and> store_of (PATCH_task e s i b) = s
        \<and> (task_findUnique s i = Some t
            \<longrightarrow> InvalidEnumError (response_of (PATCH_task e s i b))))"
  using POST_invalid_enum_fails [of b e s] POST_invalid_enum_kind [of b s bo e]
    PATCH_invalid_enum_fails [of b e s i] PATCH_invalid_enum_kind [of b s i t e]
  by blast

text \<open>
  The theorem at a Create with priority \<open>urgent\<close> for an existing Board and at an Update
  of an existing Task with status \<open>bogus\<close>.
\<close>

theorem C2_invalid_enum_rejected_witness:
  "truthy (field body_urgent ''priority'')
   \<and> \<not> array_includes validPriorities (field body_urgent ''priority'')
   \<and> truthy (field body_urgent ''boardId'') \<and> truthy (field body_urgent ''title'')
   \<and> board_findUnique store0 (field body_urgent ''boardId'') = Returns (Some board1)
   \<and> is_error (response_of (POST_tasks env0 store0 body_urgent))
   \<and> store_of (POST_tasks env0 store0 body_urgent) = store0
   \<and> InvalidEnumError (response_of (POST_tasks env0 store0 body_urgent))
   \<and> field patch_bogus ''status'' \<noteq> JUndefined
   \<and> \<not> array_includes validStatuses (field patch_bogus ''status'')
   \<and> task_findUnique store2 ''a'' = Some taskA
   \<and> is_error (response_of (PATCH_task env0 store2 ''a'' patch_bogus))
   \<and> store_of (PATCH_task env0 store2 ''a'' patch_bogus) = store2
   \<and> InvalidEnumError (response_of (PATCH_task env0 store2 ''a'' patch_bogus))"
proof -
  have h1: "truthy (field body_urgent ''priority'')
      \<and> \<not> array_includes validPriorities (field body_urgent ''priority'')
      \<and> truthy (field body_urgent ''boardId'') \<and> truthy (field body_urgent ''title'')
      \<and> board_findUnique store0 (field body_urgent ''boardId'') = Returns (Some board1)"
    by (simp add: field_def body_urgent_def validPriorities_def store0_def board1_def)
  have h2: "field patch_bogus ''status'' \<noteq> JUndefined
      \<and> \<not> array_includes validStatuses (field patch_bogus ''status'')
      \<and> task_findUnique store2 ''a'' = Some taskA"
    by (simp add: field_def patch_bogus_def validStatuses_def task_findUnique_def store2_def
        taskA_def)
  show ?thesis
    using h1 h2
      C2_invalid_enum_rejected [where b = body_urgent and e = env0 and s = store0
        and bo = board1]
      C2_invalid_enum_rejected [where b = patch_bogus and e = env0 and s = store2
        and i = "''a''" and t = taskA]
    by blast
qed

text \<open>
  C2 as stated fails. A Create that supplies the status \<open>bogus\<close> and no \<open>boardId\<close> fails,
  but with the error of the first check, which is not InvalidEnumError; and a Create
  with an explicit \<open>null\<close> priority succeeds and inserts a Task.
\<close>

theorem C2_error_kind_counterexample:
  "field body_bogus_only ''status'' = JStr ''bogus''
   \<and> \<not> array_includes validStatuses (JStr ''bogus'')
   \<and> response_of (POST_tasks env0 store0 body_bogus_only)
       = (ErrorBody ''boardId is required'', 400)
   \<and> \<not> InvalidEnumError (response_of (POST_tasks env0 store0 body_bogus_only))
   \<and> field body_null_priority ''priority'' = JNull
   \<and> \<not> array_includes validPriorities JNull
   \<and> response_of (POST_tasks env0 store0 body_null_priority) = (TaskBody task_plain, 201)
   \<and> store_of (POST_tasks env0 store0 body_null_priority) = store0\<lparr>tasks := [task_plain]\<rparr>"
proof -
  have fields: "field body_bogus_only ''status'' = JStr ''bogus''
      \<and> \<not> array_includes validStatuses (JStr ''bogus'')
      \<and> field body_null_priority ''priority'' = JNull
      \<and> \<not> array_includes validPriorities JNull"
    by (simp add: field_def body_bogus_only_def body_null_priority_def validStatuses_def)
  have runs: "response_of (POST_tasks env0 store0 body_bogus_only)
        = (ErrorBody ''boardId is required'', 400)
      \<and> \<not> InvalidEnumError (response_of (POST_tasks env0 store0 body_bogus_only))
      \<and> response_of (POST_tasks env0 store0 body_null_priority) = (TaskBody task_plain, 201)
      \<and> store_of (POST_tasks env0 store0 body_null_priority)
          = store0\<lparr>tasks := [task_plain]\<rparr>"
    by (simp add: run_body_bogus_only run_body_null_priority run_defs InvalidEnumError_def)
  show ?thesis using fields runs by blast
qed

section \<open>Unknown Task identifiers\<close>

text \<open>
  C5. When the identifier resolves to no Task, Update and Delete answer NotFoundError and
  return the store they were given, whatever the patch.
\<close>

theorem C5_unknown_task:
  assumes "task_findUnique s i = None"
  shows "NotFoundError (response_of (PATCH_task e s i b))
       \<and> store_of (PATCH_task e s i b) = s
       \<and> NotFoundError (response_of (DELETE_task s i))
       \<and> store_of (DELETE_task s i) = s"
  using assms by (simp add: PATCH_task_def DELETE_task_def NotFoundError_def run_defs)

text \<open>The theorem at the identifier \<open>ghost\<close> on a store with the Tasks \<open>a\<close> and \<open>b\<close>.\<close>

theorem C5_unknown_task_witness:
  "task_findUnique store2 ''ghost'' = None
   \<and> response_of (PATCH_task env0 store2 ''ghost'' patch_progress)
       = (ErrorBody ''Task not found'', 404)
   \<and> store_of (PATCH_task env0 store2 ''ghost'' patch_progress) = store2
   \<and> response_of (DELETE_task store2 ''ghost'') = (ErrorBody ''Task not found'', 404)
   \<and> store_of (DELETE_task store2 ''ghost'') = store2"
proof -
  have h: "task_findUnique store2 ''ghost'' = None"
    by (simp add: task_findUnique_def ex_defs)
  show ?thesis
    using h C5_unknown_task [OF h, of env0 patch_progress]
    by (simp add: NotFoundError_def)
qed

section \<open>The title of a created Task\<close>

text \<open>
  C6 does not hold of POST /api/tasks, which tests \<open>!title\<close> only. A title of three
  spaces trims to the empty string, yet the request is answered 201 and the Task is
  inserted with that title. A title that is the number 5 is not answered with
  MissingFieldError either: it reaches the store, whose type check throws, and the answer
  is 500.
\<close>

theorem C6_blank_title_accepted:
  "field body_blank_title ''title'' = JStr ''   '' \<and> trim ''   '' = []
   \<and> POST_tasks env0 store0 body_blank_title =
       ((TaskBody task_blank, 201), store0\<lparr>tasks := [task_blank]\<rparr>,
        [BoardFindUnique, TaskCreate])
   \<and> field body_numeric_title ''title'' = JNum 5
   \<and> POST_tasks env0 store0 body_numeric_title =
       ((ErrorBody ''Internal server error'', 500), store0, [BoardFindUnique, TaskCreate])
   \<and> \<not> MissingFieldError (ErrorBody ''Internal server error'', 500)"
  by (simp add: handler_defs ex_defs trim_def is_ws_def MissingFieldError_def)

section \<open>Store calls on a failing validation\<close>

lemma POST_missing_field_calls:
  "MissingFieldError (response_of (POST_tasks e s b)) \<Longrightarrow>
     calls_of (POST_tasks e s b) = [] \<and> store_of (POST_tasks e s b) = s"
  by (simp add: POST_tasks_def MissingFieldError_def run_defs
           split: if_splits outcome.splits option.splits prod.splits)

lemma POST_invalid_enum_calls:
  "InvalidEnumError (response_of (POST_tasks e s b)) \<Longrightarrow>
     calls_of (POST_tasks e s b) = [BoardFindUnique] \<and> store_of (POST_tasks e s b) = s"
  by (simp add: POST_tasks_def InvalidEnumError_def run_defs
           split: if_splits outcome.splits option.splits prod.splits)

lemma PATCH_invalid_enum_calls:
  "InvalidEnumError (response_of (PATCH_task e s i b)) \<Longrightarrow>
     calls_of (PATCH_task e s i b) = [TaskFindUnique] \<and> store_of (PATCH_task e s i b) = s"
  by (simp add: PATCH_task_def InvalidEnumError_def run_defs
           split: if_splits outcome.splits option.splits prod.splits)

text \<open>
  C8, as the code has it. A Create that fails with MissingFieldError has made no store
  call. A Create that fails with InvalidEnumError has made exactly one store call, the
  lookup of the Board, and an Update that fails with InvalidEnumError has made exactly
  one, the lookup of the Task: both are reads, and in all three cases the store is left
  as it was.
\<close>

theorem C8_validation_store_calls:
  "(MissingFieldError (response_of (POST_tasks e s b))
      \<longrightarrow> calls_of (POST_tasks e s b) = [] \<and> store_of (POST_tasks e s b) = s)
   \<and> (InvalidEnumError (response_of (POST_tasks e s b))
      \<longrightarrow> calls_of (POST_tasks e s b) = [BoardFindUnique] \<and> store_of (POST_tasks e s b) = s)
   \<and> (InvalidEnumError (response_of (PATCH_task e s i b))
      \<longrightarrow> calls_of (PATCH_task e s i b) = [TaskFindUnique]
          \<and> store_of (PATCH_task e s i b) = s)"
  using POST_missing_field_calls [of e s b] POST_invalid_enum_calls [of e s b]
    PATCH_invalid_enum_calls [of e s i b]
  by blast

text \<open>
  The theorem at a Create without \<open>boardId\<close>, a Create with priority \<open>urgent\<close> and an
  Update with status \<open>bogus\<close>.
\<close>

theorem C8_validation_store_calls_witness:
  "MissingFieldError (response_of (POST_tasks env0 store0 body_bogus_only))
   \<and> calls_of (POST_tasks env0 store0 body_bogus_only) = []
   \<and> InvalidEnumError (response_of (POST_tasks env0 store0 body_urgent))
   \<and> calls_of (POST_tasks env0 store0 body_urgent) = [BoardFindUnique]
   \<and> store_of (POST_tasks env0 store0 body_urgent) = store0
   \<and> InvalidEnumError (response_of (PATCH_task env0 store2 ''a'' patch_bogus))
   \<and> calls_of (PATCH_task env0 store2 ''a'' patch_bogus) = [TaskFindUnique]
   \<and> store_of (PATCH_task env0 store2 ''a'' patch_bogus) = store2"
proof -
  have h1: "MissingFieldError (response_of (POST_tasks env0 store0 body_bogus_only))"
    by (simp add: run_body_bogus_only run_defs MissingFieldError_def)
  have h2: "InvalidEnumError (response_of (POST_tasks env0 store0 body_urgent))"
    by (simp add: run_body_urgent run_defs InvalidEnumError_def)
  have h3: "InvalidEnumError (response_of (PATCH_task env0 store2 ''a'' patch_bogus))"
    by (simp add: run_patch_bogus run_defs InvalidEnumError_def)
  show ?thesis
    using h1 h2 h3
      C8_validation_store_calls [of env0 store0 body_bogus_only "''a''"]
      C8_validation_store_calls [of env0 store0 body_urgent "''a''"]
      C8_validation_store_calls [of env0 store2 patch_bogus "''a''"]
    by blast
qed

text \<open>
  C8 as stated fails: the Create with priority \<open>urgent\<close> is answered InvalidEnumError
  after the store was read for the Board, and the Update with status \<open>bogus\<close> after the
  store was read for the Task.
\<close>

theorem C8_store_read_counterexample:
  "InvalidEnumError (response_of (POST_tasks env0 store0 body_urgent))
   \<and> calls_of (POST_tasks env0 store0 body_urgent) = [BoardFindUnique]
   \<and> InvalidEnumError (response_of (PATCH_task env0 store2 ''a'' patch_bogus))
   \<and> calls_of (PATCH_task env0 store2 ''a'' patch_bogus) = [TaskFindUnique]"
  by (simp add: run_body_urgent run_patch_bogus run_defs InvalidEnumError_def)


section \<open>Update is a partial patch\<close>




lemma PATCH_task_outcome:
  "store_of (PATCH_task e s i b) = s \<and> snd (response_of (PATCH_task e s i b)) \<noteq> 200
   \<or> (\<exists>t' s'. PATCH_task e s i b = ((TaskBody t', 200), s', [TaskFindUnique, TaskUpdate])
        \<and> task_update e s i (updateData e b) = Returns (t', s'))"
proof (cases "task_update e s i (updateData e b)")
  case Throws
  then show ?thesis
    by (simp add: PATCH_task_def run_defs split: option.splits)
next
  case (Returns p)
  then show ?thesis
    by (cases p) (simp add: PATCH_task_def run_defs split: option.splits)
qed





text \<open>An operation object as title reaches the store, which writes its value.\<close>

lemma run_patch_set_title:
  "PATCH_task env0 store2 ''a'' patch_set_title =
     ((TaskBody (taskA\<lparr>title := ''Write copy now'', updatedAt := 1000\<rparr>), 200),
      store2\<lparr>tasks := [taskA\<lparr>title := ''Write copy now'', updatedAt := 1000\<rparr>, taskB]\<rparr>,
      [TaskFindUnique, TaskUpdate])"
  by (simp add: handler_defs ex_defs)





section \<open>Referential integrity\<close>

lemma find_board_append:
  "find_board (bs @ cs) i = (case find_board bs i of None \<Rightarrow> find_board cs i | Some b \<Rightarrow> Some b)"
  by (induction bs) auto

lemma find_board_filter:
  "find_board (filter (\<lambda>b. board_id b \<noteq> i) bs) j = (if j = i then None else find_board bs j)"
  by (induction bs) auto

lemma ref_integrity_POST_tasks:
  assumes "ref_integrity s"
  shows "ref_integrity (store_of (POST_tasks e s b))"
proof (cases "task_create e s (createData e b)")
  case Throws
  with assms show ?thesis
    by (simp add: POST_tasks_def run_defs split: outcome.splits option.splits)
next
  case (Returns p)
  obtain t s' where p: "p = (t, s')" by (cases p)
  from task_create_Returns [OF Returns [unfolded p]] assms
  have "ref_integrity s'" by (simp add: ref_integrity_def)
  with assms Returns p show ?thesis
    by (simp add: POST_tasks_def run_defs split: outcome.splits option.splits)
qed

lemma task_update_boardIds:
  assumes "task_update e s i d = Returns (t', s')"
  shows "map boardId (tasks s') = map boardId (tasks s) \<and> boards s' = boards s"
  using assms
  by (auto simp: task_update_def Let_def split: outcome.splits option.splits)

lemma ref_integrity_boardIds:
  "ref_integrity s \<longleftrightarrow> list_all (\<lambda>i. find_board (boards s) i \<noteq> None) (map boardId (tasks s))"
  by (simp add: ref_integrity_def list_all_iff)

lemma ref_integrity_PATCH_task:
  assumes "ref_integrity s"
  shows "ref_integrity (store_of (PATCH_task e s i b))"
proof -
  from PATCH_task_outcome [of e s i b] show ?thesis
  proof (elim disjE conjE exE)
    assume "store_of (PATCH_task e s i b) = s"
    with assms show ?thesis by simp
  next
    fix t' s'
    assume run: "PATCH_task e s i b = ((TaskBody t', 200), s', [TaskFindUnique, TaskUpdate])"
      and upd: "task_update e s i (updateData e b) = Returns (t', s')"
    from task_update_boardIds [OF upd] assms have "ref_integrity s'"
      by (simp add: ref_integrity_boardIds)
    with run show ?thesis by (simp add: run_defs)
  qed
qed

lemma ref_integrity_DELETE_task:
  assumes "ref_integrity s"
  shows "ref_integrity (store_of (DELETE_task s i))"
  using assms
  by (auto simp: DELETE_task_def task_delete_def task_findUnique_def run_defs ref_integrity_def
      list_all_iff split: option.splits)

lemma ref_integrity_POST_boards:
  assumes "ref_integrity s"
  shows "ref_integrity (store_of (POST_boards e s b))"
  using assms
  by (auto simp: POST_boards_def board_create_def run_defs ref_integrity_def Let_def
      list_all_iff find_board_append split: outcome.splits option.splits)

lemma ref_integrity_DELETE_board:
  assumes "ref_integrity s"
  shows "ref_integrity (store_of (DELETE_board s i))"
  using assms
  by (auto simp: DELETE_board_def board_delete_def run_defs ref_integrity_def
      list_all_iff find_board_filter split: option.splits)

lemma POST_tasks_unknown_board:
  assumes "\<forall>bo. board_findUnique s (field b ''boardId'') \<noteq> Returns (Some bo)"
  shows "is_error (response_of (POST_tasks e s b)) \<and> store_of (POST_tasks e s b) = s"
  using assms
  by (simp add: POST_tasks_def run_defs split: outcome.splits option.splits)

lemma POST_tasks_board_not_found:
  assumes "truthy (field b ''boardId'')" and "truthy (field b ''title'')"
    and "board_findUnique s (field b ''boardId'') = Returns None"
  shows "BoardNotFoundError (response_of (POST_tasks e s b))"
  using assms by (simp add: POST_tasks_def run_defs BoardNotFoundError_def)

lemma find_task_mem: "find_task ts j = Some t \<Longrightarrow> t \<in> set ts"
  by (induction ts) (auto split: if_splits)

lemma DELETE_board_cascade:
  assumes "find_board (boards s) i = Some bo"
  shows "response_of (DELETE_board s i) = (BoardBody bo, 200)
       \<and> find_board (boards (store_of (DELETE_board s i))) i = None
       \<and> tasks (store_of (DELETE_board s i)) = filter (\<lambda>t. boardId t \<noteq> i) (tasks s)
       \<and> (\<forall>j t. task_findUnique (store_of (DELETE_board s i)) j = Some t \<longrightarrow> boardId t \<noteq> i)"
proof -
  let ?s' = "s\<lparr>boards := filter (\<lambda>b. board_id b \<noteq> i) (boards s),
                tasks := filter (\<lambda>t. boardId t \<noteq> i) (tasks s)\<rparr>"
  from assms have run: "DELETE_board s i =
      ((BoardBody bo, 200), ?s', [BoardFindUnique, BoardDelete])"
    by (simp add: DELETE_board_def board_delete_def)
  then have r: "response_of (DELETE_board s i) = (BoardBody bo, 200)"
    and st: "store_of (DELETE_board s i) = ?s'"
    by (simp_all add: run_defs)
  have gone: "find_board (boards ?s') i = None"
    by (simp add: find_board_filter)
  have kept: "tasks ?s' = filter (\<lambda>t. boardId t \<noteq> i) (tasks s)"
    by simp
  have none: "\<forall>j t. task_findUnique ?s' j = Some t \<longrightarrow> boardId t \<noteq> i"
  proof (intro allI impI)
    fix j t
    assume "task_findUnique ?s' j = Some t"
    then have "find_task (filter (\<lambda>t. boardId t \<noteq> i) (tasks s)) j = Some t"
      by (simp add: task_findUnique_def)
    then have "t \<in> set (filter (\<lambda>t. boardId t \<noteq> i) (tasks s))"
      by (rule find_task_mem)
    then show "boardId t \<noteq> i" by simp
  qed
  from r gone kept none show ?thesis
    unfolding st by - (intro conjI, assumption+)
qed

lemma run_body_ghost:
  "POST_tasks env0 store3 body_ghost = ((ErrorBody ''Board not found'', 404), store3,
     [BoardFindUnique])"
  by (simp add: handler_defs ex_defs)

lemma run_body_ghost_untitled:
  "POST_tasks env0 store3 body_ghost_untitled = ((ErrorBody ''title is required'', 400), store3, [])"
  by (simp add: handler_defs ex_defs)

lemma run_delete_board1:
  "DELETE_board store3 ''b1'' =
     ((BoardBody board1, 200), \<lparr>boards = [board2], tasks = [taskC]\<rparr>,
      [BoardFindUnique, BoardDelete])"
  by (simp add: handler_defs ex_defs)

text \<open>
  C3, as the code has it. Every operation that writes (Create, Update and Delete of a
  Task, Create and Delete of a Board) takes a store in which every Task has its Board
  to a store in which every Task has its Board. A Create whose \<open>boardId\<close> resolves to no
  Board fails and leaves the store as it was; the failure is BoardNotFoundError when
  \<open>boardId\<close> and \<open>title\<close> are truthy and the lookup returns nothing. A Delete of an
  existing Board answers with that Board and leaves a store without the Board, in
  which the Tasks are those of the other Boards and no lookup of a Task by its
  identifier returns a Task of the deleted Board.
\<close>

theorem C3_referential_integrity:
  "(ref_integrity s \<longrightarrow>
      ref_integrity (store_of (POST_tasks e s b))
    \<and> ref_integrity (store_of (PATCH_task e s i b))
    \<and> ref_integrity (store_of (DELETE_task s i))
    \<and> ref_integrity (store_of (POST_boards e s b))
    \<and> ref_integrity (store_of (DELETE_board s i)))
   \<and> ((\<forall>bo. board_findUnique s (field b ''boardId'') \<noteq> Returns (Some bo)) \<longrightarrow>
        is_error (response_of (POST_tasks e s b)) \<and> store_of (POST_tasks e s b) = s)
   \<and> (truthy (field b ''boardId'') \<and> truthy (field b ''title'')
        \<and> board_findUnique s (field b ''boardId'') = Returns None \<longrightarrow>
        BoardNotFoundError (response_of (POST_tasks e s b)))
   \<and> (find_board (boards s) i = Some bo \<longrightarrow>
        response_of (DELETE_board s i) = (BoardBody bo, 200)
      \<and> find_board (boards (store_of (DELETE_board s i))) i = None
      \<and> tasks (store_of (DELETE_board s i)) = filter (\<lambda>t. boardId t \<noteq> i) (tasks s)
      \<and> (\<forall>j t. task_findUnique (store_of (DELETE_board s i)) j = Some t
            \<longrightarrow> boardId t \<noteq> i))"
proof -
  have preserved: "ref_integrity s \<longrightarrow>
      ref_integrity (store_of (POST_tasks e s b))
    \<and> ref_integrity (store_of (PATCH_task e s i b))
    \<and> ref_integrity (store_of (DELETE_task s i))
    \<and> ref_integrity (store_of (POST_boards e s b))
    \<and> ref_integrity (store_of (DELETE_board s i))"
    by (intro impI conjI ref_integrity_POST_tasks ref_integrity_PATCH_task
        ref_integrity_DELETE_task ref_integrity_POST_boards ref_integrity_DELETE_board)
  have unknown: "(\<forall>bo. board_findUnique s (field b ''boardId'') \<noteq> Returns (Some bo)) \<longrightarrow>
        is_error (response_of (POST_tasks e s b)) \<and> store_of (POST_tasks e s b) = s"
    by (rule impI) (rule POST_tasks_unknown_board)
  have not_found: "truthy (field b ''boardId'') \<and> truthy (field b ''title'')
        \<and> board_findUnique s (field b ''boardId'') = Returns None \<longrightarrow>
        BoardNotFoundError (response_of (POST_tasks e s b))"
    by (intro impI, elim conjE) (rule POST_tasks_board_not_found)
  have cascade: "find_board (boards s) i = Some bo \<longrightarrow>
        response_of (DELETE_board s i) = (BoardBody bo, 200)
      \<and> find_board (boards (store_of (DELETE_board s i))) i = None
      \<and> tasks (store_of (DELETE_board s i)) = filter (\<lambda>t. boardId t \<noteq> i) (tasks s)
      \<and> (\<forall>j t. task_findUnique (store_of (DELETE_board s i)) j = Some t
            \<longrightarrow> boardId t \<noteq> i)"
    by (rule impI) (rule DELETE_board_cascade)
  from preserved unknown not_found cascade show ?thesis
    by - (intro conjI, assumption+)
qed

text \<open>
  The theorem on a store with two Boards and a Task on each: a Create for the Board
  \<open>ghost\<close>, and a Delete of the Board \<open>b1\<close>.
\<close>

theorem C3_referential_integrity_witness:
  "ref_integrity store3
   \<and> ref_integrity (store_of (POST_tasks env0 store3 body_ghost))
   \<and> ref_integrity (store_of (DELETE_board store3 ''b1''))
   \<and> truthy (field body_ghost ''boardId'') \<and> truthy (field body_ghost ''title'')
   \<and> board_findUnique store3 (field body_ghost ''boardId'') = Returns None
   \<and> BoardNotFoundError (response_of (POST_tasks env0 store3 body_ghost))
   \<and> store_of (POST_tasks env0 store3 body_ghost) = store3
   \<and> find_board (boards store3) ''b1'' = Some board1
   \<and> response_of (DELETE_board store3 ''b1'') = (BoardBody board1, 200)
   \<and> find_board (boards (store_of (DELETE_board store3 ''b1''))) ''b1'' = None
   \<and> tasks (store_of (DELETE_board store3 ''b1'')) = [taskC]
   \<and> task_findUnique (store_of (DELETE_board store3 ''b1'')) ''a'' = None"
proof -
  have h1: "ref_integrity store3"
    by (simp add: ref_integrity_def ex_defs)
  have h2: "truthy (field body_ghost ''boardId'') \<and> truthy (field body_ghost ''title'')
      \<and> board_findUnique store3 (field body_ghost ''boardId'') = Returns None"
    by (simp add: field_def ex_defs)
  then have h3: "\<forall>bo. board_findUnique store3 (field body_ghost ''boardId'') \<noteq> Returns (Some bo)"
    by simp
  have h4: "find_board (boards store3) ''b1'' = Some board1"
    by (simp add: ex_defs)
  have t: "tasks (store_of (DELETE_board store3 ''b1'')) = [taskC]
      \<and> task_findUnique (store_of (DELETE_board store3 ''b1'')) ''a'' = None"
    by (simp add: run_delete_board1 run_defs task_findUnique_def taskC_def)
  note inst = C3_referential_integrity [of store3 env0 body_ghost "''b1''" board1]
  from inst [THEN conjunct1] h1 have
    a: "ref_integrity (store_of (POST_tasks env0 store3 body_ghost))
      \<and> ref_integrity (store_of (DELETE_board store3 ''b1''))"
    by simp
  from inst [THEN conjunct2, THEN conjunct1] h3 have
    b: "store_of (POST_tasks env0 store3 body_ghost) = store3"
    by simp
  from inst [THEN conjunct2, THEN conjunct2, THEN conjunct1] h2 have
    c: "BoardNotFoundError (response_of (POST_tasks env0 store3 body_ghost))"
    by simp
  from inst [THEN conjunct2, THEN conjunct2, THEN conjunct2] h4 have
    d: "response_of (DELETE_board store3 ''b1'') = (BoardBody board1, 200)
      \<and> find_board (boards (store_of (DELETE_board store3 ''b1''))) ''b1'' = None"
    by simp
  from h1 h2 h4 t a b c d show ?thesis by simp
qed

text \<open>
  C3 as stated fails in its middle part: a Create whose \<open>boardId\<close> resolves to no Board
  and that has no title fails with the error of the title check, not with
  BoardNotFoundError.
\<close>

theorem C3_missing_title_first_counterexample:
  "field body_ghost_untitled ''boardId'' = JStr ''ghost''
   \<and> board_findUnique store3 (JStr ''ghost'') = Returns None
   \<and> response_of (POST_tasks env0 store3 body_ghost_untitled)
       = (ErrorBody ''title is required'', 400)
   \<and> \<not> BoardNotFoundError (response_of (POST_tasks env0 store3 body_ghost_untitled))"
proof -
  have "field body_ghost_untitled ''boardId'' = JStr ''ghost''
      \<and> board_findUnique store3 (JStr ''ghost'') = Returns None"
    by (simp add: field_def ex_defs)
  moreover have "response_of (POST_tasks env0 store3 body_ghost_untitled)
        = (ErrorBody ''title is required'', 400)
      \<and> \<not> BoardNotFoundError (response_of (POST_tasks env0 store3 body_ghost_untitled))"
    by (simp add: run_body_ghost_untitled run_defs BoardNotFoundError_def)
  ultimately show ?thesis by - (elim conjE, intro conjI, assumption+)
qed


section \<open>The name of a created Board\<close>

lemma trim_decomp:
  "s = takeWhile is_ws s @ trim s @ rev (takeWhile is_ws (rev (dropWhile is_ws s)))"
proof -
  let ?a = "dropWhile is_ws s"
  have "trim s @ rev (takeWhile is_ws (rev ?a))
      = rev (takeWhile is_ws (rev ?a) @ dropWhile is_ws (rev ?a))"
    unfolding trim_def by (simp only: rev_append)
  also have "\<dots> = rev (rev ?a)"
    by (simp only: takeWhile_dropWhile_id)
  finally have "trim s @ rev (takeWhile is_ws (rev ?a)) = ?a"
    by simp
  then have "takeWhile is_ws s @ trim s @ rev (takeWhile is_ws (rev ?a))
      = takeWhile is_ws s @ ?a"
    by simp
  then show ?thesis by simp
qed

lemma trim_surrounded:
  "\<exists>pre suf. s = pre @ trim s @ suf \<and> list_all is_ws pre \<and> list_all is_ws suf"
proof (intro exI conjI)
  show "s = takeWhile is_ws s @ trim s @ rev (takeWhile is_ws (rev (dropWhile is_ws s)))"
    by (rule trim_decomp)
  show "list_all is_ws (takeWhile is_ws s)"
    by (simp add: list_all_iff) (meson set_takeWhileD)
  show "list_all is_ws (rev (takeWhile is_ws (rev (dropWhile is_ws s))))"
    by (simp add: list_all_iff) (meson set_takeWhileD)
qed

lemma trim_ends:
  assumes "trim s \<noteq> []"
  shows "\<not> is_ws (hd (trim s)) \<and> \<not> is_ws (last (trim s))"
proof -
  let ?a = "dropWhile is_ws s"
  let ?b = "dropWhile is_ws (rev ?a)"
  from assms have b: "?b \<noteq> []" by (simp add: trim_def)
  have a: "?a \<noteq> []"
  proof
    assume "?a = []"
    then have "?b = []" by (simp only: rev.simps dropWhile.simps)
    with b show False by simp
  qed
  have "last (trim s) = hd ?b" using b by (simp add: trim_def last_rev)
  moreover have "\<not> is_ws (hd ?b)" using b by (rule hd_dropWhile)
  moreover have "hd (trim s) = last ?b" using b by (simp add: trim_def hd_rev)
  moreover have "last ?b = last (rev ?a)"
    using b by (metis append_is_Nil_conv last_appendR takeWhile_dropWhile_id)
  moreover have "last (rev ?a) = hd ?a" using a by (simp add: last_rev)
  moreover have "\<not> is_ws (hd ?a)" using a by (rule hd_dropWhile)
  ultimately show ?thesis by simp
qed

lemma opt_string_nullish:
  "opt_string (nullish_or v JNull) = Returns x \<longleftrightarrow>
     (\<exists>d. v = JStr d \<and> x = Some d) \<or> (v \<in> {JUndefined, JNull} \<and> x = None)"
  by (cases v) auto

lemma board_create_Returns:
  assumes "board_create e s d = Returns (bo, s')"
  shows "name bo = bd_name d
       \<and> opt_string (bd_description d) = Returns (board_description bo)
       \<and> opt_string (bd_color d) = Returns (color bo)
       \<and> boards s' = boards s @ [bo] \<and> tasks s' = tasks s"
  using assms
  by (auto simp: board_create_def Let_def split: outcome.splits if_splits)

lemma name_missing_False:
  "\<not> name_missing v \<longleftrightarrow> (\<exists>n. v = JStr n \<and> n \<noteq> [] \<and> trim n \<noteq> [])"
  by (cases v) auto

lemma POST_boards_created:
  assumes "POST_boards e s b = ((BoardBody bo, c), s', tr)"
  shows "\<not> name_missing (field b ''name'')
       \<and> board_create e s
            \<lparr>bd_name = trim (string_of (field b ''name'')),
             bd_description = nullish_or (field b ''description'') JNull,
             bd_color = nullish_or (field b ''color'') JNull\<rparr> = Returns (bo, s')"
  using assms
  by (auto simp: POST_boards_def split: if_splits outcome.splits prod.splits)

lemma run_body_launch:
  "POST_boards env0 store0 body_launch =
     ((BoardBody board_launch, 201), store0\<lparr>boards := [board1, board_launch]\<rparr>, [BoardCreate])"
  by (simp add: handler_defs ex_defs trim_def is_ws_def)

text \<open>
  C10. When a Board is created, the request's name is a string and the stored name is
  that string trimmed: the request's name is the stored name between two runs of white
  space, and the stored name is not empty and neither begins nor ends with white space.
  The stored description and colour are the strings of the request, or null when the
  request gives none or null. The Board is appended to the Boards and no Task changes.
\<close>

theorem C10_board_name_trimmed:
  assumes "POST_boards e s b = ((BoardBody bo, c), s', tr)"
  shows "\<exists>n. field b ''name'' = JStr n \<and> name bo = trim n \<and> name bo \<noteq> []
     \<and> (\<exists>pre suf. n = pre @ name bo @ suf \<and> list_all is_ws pre \<and> list_all is_ws suf)
     \<and> \<not> is_ws (hd (name bo)) \<and> \<not> is_ws (last (name bo))
     \<and> ((\<exists>d. field b ''description'' = JStr d \<and> board_description bo = Some d)
        \<or> (field b ''description'' \<in> {JUndefined, JNull} \<and> board_description bo = None))
     \<and> ((\<exists>d. field b ''color'' = JStr d \<and> color bo = Some d)
        \<or> (field b ''color'' \<in> {JUndefined, JNull} \<and> color bo = None))
     \<and> boards s' = boards s @ [bo] \<and> tasks s' = tasks s"
proof -
  from POST_boards_created [OF assms] obtain n where
    n: "field b ''name'' = JStr n" "trim n \<noteq> []"
    and cr: "board_create e s
            \<lparr>bd_name = trim (string_of (field b ''name'')),
             bd_description = nullish_or (field b ''description'') JNull,
             bd_color = nullish_or (field b ''color'') JNull\<rparr> = Returns (bo, s')"
    by (auto simp: name_missing_False)
  from board_create_Returns [OF cr] n have
    nm: "name bo = trim n"
    and de: "opt_string (nullish_or (field b ''description'') JNull)
               = Returns (board_description bo)"
    and co: "opt_string (nullish_or (field b ''color'') JNull) = Returns (color bo)"
    and st: "boards s' = boards s @ [bo]" "tasks s' = tasks s"
    by simp_all
  have sur: "\<exists>pre suf. n = pre @ name bo @ suf \<and> list_all is_ws pre \<and> list_all is_ws suf"
    unfolding nm by (rule trim_surrounded)
  have ends: "\<not> is_ws (hd (name bo)) \<and> \<not> is_ws (last (name bo))"
    unfolding nm using n(2) by (rule trim_ends)
  have de': "(\<exists>d. field b ''description'' = JStr d \<and> board_description bo = Some d)
        \<or> (field b ''description'' \<in> {JUndefined, JNull} \<and> board_description bo = None)"
    using de by (simp only: opt_string_nullish)
  have co': "(\<exists>d. field b ''color'' = JStr d \<and> color bo = Some d)
        \<or> (field b ''color'' \<in> {JUndefined, JNull} \<and> color bo = None)"
    using co by (simp only: opt_string_nullish)
  have ne: "name bo \<noteq> []" using n(2) nm by simp
  from n(1) nm ne sur ends de' co' st show ?thesis
    by - (rule exI [of _ n], simp)
qed

text \<open>
  The theorem at a request with the name \<open>Launch\<close> between spaces, a colour and no
  description.
\<close>

theorem C10_board_name_trimmed_witness:
  "POST_boards env0 store0 body_launch =
     ((BoardBody board_launch, 201), store0\<lparr>boards := [board1, board_launch]\<rparr>, [BoardCreate])
   \<and> field body_launch ''name'' = JStr ''  Launch ''
   \<and> name board_launch = trim ''  Launch '' \<and> name board_launch = ''Launch''
   \<and> field body_launch ''description'' = JUndefined \<and> board_description board_launch = None
   \<and> field body_launch ''color'' = JStr ''#6366f1'' \<and> color board_launch = Some ''#6366f1''"
proof -
  have f: "field body_launch ''name'' = JStr ''  Launch ''
      \<and> field body_launch ''description'' = JUndefined
      \<and> field body_launch ''color'' = JStr ''#6366f1''"
    by (simp add: field_def body_launch_def)
  from C10_board_name_trimmed [OF run_body_launch] f have
    "name board_launch = trim ''  Launch ''
     \<and> board_description board_launch = None \<and> color board_launch = Some ''#6366f1''"
    by auto
  moreover have "name board_launch = ''Launch''"
    by (simp add: board_launch_def)
  ultimately show ?thesis using f run_body_launch by simp
qed


section \<open>Rolling back an optimistic update\<close>

lemma find_distinct_id:
  assumes "find (\<lambda>t. task_id t = i) ts = Some x" and "distinct (map task_id ts)"
  shows "\<forall>t \<in> set ts. task_id t = i \<longrightarrow> t = x"
  using assms
proof (induction ts)
  case Nil
  then show ?case by simp
next
  case (Cons a ts)
  show ?case
  proof (cases "task_id a = i")
    case True
    from Cons.prems True have ax: "a = x" by simp
    from Cons.prems have "task_id a \<notin> task_id ` set ts" by simp
    with True have "\<forall>t \<in> set ts. task_id t \<noteq> i" by (metis imageI)
    with ax show ?thesis by auto
  next
    case False
    with Cons show ?thesis by auto
  qed
qed

text \<open>
  Beside C9: a status change that is rolled back gives the list it started from, when
  no two Tasks of the list share an identifier.
\<close>

lemma handleStatusChange_rollback:
  assumes "distinct (map task_id ts)"
  shows "handleStatusChange ts taskId newStatus None = ts"
proof (cases "find (\<lambda>t. task_id t = taskId) ts")
  case None
  then show ?thesis by (simp add: handleStatusChange_def)
next
  case (Some x)
  from find_distinct_id [OF Some assms]
  have "map (\<lambda>t. if task_id t = taskId then t\<lparr>status := status x\<rparr> else t) ts = ts"
    by (intro map_idI) auto
  with Some show ?thesis
    by (simp add: handleStatusChange_def Let_def comp_def if_distrib cong: if_cong)
qed

text \<open>
  C9 does not hold of \<open>handleDeleteConfirm\<close>. With the Tasks \<open>a\<close> and \<open>b\<close> in the local
  list, a delete of \<open>a\<close> whose request fails puts \<open>a\<close> back at the end: the list is then
  \<open>b\<close>, \<open>a\<close>, which is not the list before the delete.
\<close>

theorem C9_delete_rollback_moves_task:
  "handleDeleteConfirm [taskA, taskB] (Some ''a'') False = [taskB, taskA]
   \<and> [taskB, taskA] \<noteq> [taskA, taskB]"
  by (simp add: handleDeleteConfirm_def taskA_def taskB_def)


section \<open>Listing the Tasks of a Board\<close>

lemma sort_key_of_le:
  "sort_key_of ord a \<le> sort_key_of ord b \<longleftrightarrow> task_before ord a b"
  by (auto simp: sort_key_of_def task_before_def less_eq_prod_def)

lemma sorted_wrt_task_before:
  "sorted_wrt (task_before ord) rs \<longleftrightarrow> sorted (map (sort_key_of ord) rs)"
  by (simp add: sorted_map sort_key_of_le)

text \<open>The query has an answer: sorting the matching rows by their keys gives one.\<close>

lemma findMany_tasks_exists:
  "findMany_tasks ord s b (sort_key (sort_key_of ord) (filter (\<lambda>t. boardId t = b) (tasks s)))"
  by (simp add: findMany_tasks_def sorted_wrt_task_before)

text \<open>Two answers carry the same keys in the same order.\<close>

lemma findMany_tasks_keys:
  assumes "findMany_tasks ord s b rs" and "findMany_tasks ord s b rs'"
  shows "map (sort_key_of ord) rs = map (sort_key_of ord) rs'"
proof -
  from assms have "mset rs = mset rs'" by (simp add: findMany_tasks_def)
  then have "mset (map (sort_key_of ord) rs) = mset (map (sort_key_of ord) rs')"
    by simp
  moreover from assms have "sorted (map (sort_key_of ord) rs)"
    and "sorted (map (sort_key_of ord) rs')"
    by (simp_all add: findMany_tasks_def sorted_wrt_task_before)
  ultimately show ?thesis
    by (metis properties_for_sort)
qed

lemma GET_tasks_missing:
  assumes "q = None \<or> q = Some []"
  shows "GET_tasks ord s q r \<longleftrightarrow> r = (ErrorBody ''boardId query parameter is required'', 400)"
  using assms by (auto simp: GET_tasks_def)

lemma GET_tasks_present:
  assumes "q = Some b" and "b \<noteq> []"
  shows "GET_tasks ord s q r \<longleftrightarrow> (\<exists>rs. r = (TaskListBody rs, 200) \<and> findMany_tasks ord s b rs)"
  using assms by (auto simp: GET_tasks_def split: prod.splits payload.splits)

lemma list_ab_ba:
  "GET_tasks ord0 store2 (Some ''b1'') (TaskListBody [taskA, taskB], 200)
   \<and> GET_tasks ord0 store2 (Some ''b1'') (TaskListBody [taskB, taskA], 200)
   \<and> [taskA, taskB] \<noteq> [taskB, taskA]"
  by (simp add: GET_tasks_def findMany_tasks_def task_before_def ord0_def ex_defs)

lemma list_da:
  "GET_tasks ord0 store4 (Some ''b1'') (TaskListBody [taskD, taskA], 200)
   \<and> \<not> GET_tasks ord0 store4 (Some ''b1'') (TaskListBody [taskA, taskD], 200)
   \<and> inj_on (sort_key_of ord0) (set [taskD, taskA])"
  by (simp add: GET_tasks_def findMany_tasks_def task_before_def ord0_def ex_defs
      sort_key_of_def)

lemma list_empty_boardId:
  "GET_tasks ord0 store2 (Some []) (ErrorBody ''boardId query parameter is required'', 400)
   \<and> \<not> GET_tasks ord0 store2 (Some []) (TaskListBody [], 200)
   \<and> GET_tasks ord0 store2 None (ErrorBody ''boardId query parameter is required'', 400)"
  by (simp add: GET_tasks_def)

text \<open>
  C7, as the code has it. The handler always answers. When \<open>boardId\<close> is omitted or
  empty the answer is MissingParameterError. Otherwise the answer is 200 with a list that
  holds exactly the Tasks of the store whose \<open>boardId\<close> matches, each as often as the
  store has it, ordered by \<open>order\<close> ascending and, for equal \<open>order\<close>, by creation
  time descending. Two answers to the same request carry the same keys at the same
  positions, so they differ at most in how Tasks with equal \<open>order\<close> and creation time
  follow one another; when the Tasks of an answer have pairwise different keys, it is
  the only answer.
\<close>

theorem C7_list_tasks:
  "(\<exists>r. GET_tasks ord s q r)
   \<and> ((q = None \<or> q = Some []) \<and> GET_tasks ord s q r \<longrightarrow> MissingParameterError r)
   \<and> (q = Some b \<and> b \<noteq> [] \<and> GET_tasks ord s q r \<longrightarrow>
        (\<exists>rs. r = (TaskListBody rs, 200)
            \<and> mset rs = mset (filter (\<lambda>t. boardId t = b) (tasks s))
            \<and> sorted_wrt (task_before ord) rs))
   \<and> (GET_tasks ord s q (TaskListBody rs, 200) \<and> GET_tasks ord s q (TaskListBody rs', 200)
        \<longrightarrow> map (sort_key_of ord) rs = map (sort_key_of ord) rs'
          \<and> (inj_on (sort_key_of ord) (set rs) \<longrightarrow> rs = rs'))"
proof -
  have answers: "\<exists>r. GET_tasks ord s q r"
  proof (cases "q = None \<or> q = Some []")
    case True
    then show ?thesis by (simp add: GET_tasks_missing)
  next
    case False
    then obtain c where c: "q = Some c" "c \<noteq> []" by auto
    from findMany_tasks_exists [of ord s c] show ?thesis
      unfolding GET_tasks_present [OF c] by blast
  qed
  have missing: "(q = None \<or> q = Some []) \<and> GET_tasks ord s q r \<longrightarrow> MissingParameterError r"
    by (auto simp: GET_tasks_missing MissingParameterError_def)
  have listed: "q = Some b \<and> b \<noteq> [] \<and> GET_tasks ord s q r \<longrightarrow>
        (\<exists>rs. r = (TaskListBody rs, 200)
            \<and> mset rs = mset (filter (\<lambda>t. boardId t = b) (tasks s))
            \<and> sorted_wrt (task_before ord) rs)"
    by (auto simp: GET_tasks_present findMany_tasks_def)
  have ties: "GET_tasks ord s q (TaskListBody rs, 200) \<and> GET_tasks ord s q (TaskListBody rs', 200)
        \<longrightarrow> map (sort_key_of ord) rs = map (sort_key_of ord) rs'
          \<and> (inj_on (sort_key_of ord) (set rs) \<longrightarrow> rs = rs')"
  proof (intro impI, elim conjE)
    assume g: "GET_tasks ord s q (TaskListBody rs, 200)"
      and g': "GET_tasks ord s q (TaskListBody rs', 200)"
    have "q \<noteq> None" and "q \<noteq> Some []"
      using g by (auto simp: GET_tasks_def split: option.splits)
    then obtain c where c: "q = Some c" "c \<noteq> []" by (cases q) auto
    from g g' have f: "findMany_tasks ord s c rs" "findMany_tasks ord s c rs'"
      by (simp_all add: GET_tasks_present [OF c])
    then have keys: "map (sort_key_of ord) rs = map (sort_key_of ord) rs'"
      by (rule findMany_tasks_keys)
    from f have "mset rs = mset rs'" by (simp add: findMany_tasks_def)
    then have "set rs = set rs'" by (rule mset_eq_setD)
    then have "inj_on (sort_key_of ord) (set rs) \<longrightarrow>
        inj_on (sort_key_of ord) (set rs \<union> set rs')"
      by simp
    with keys have "inj_on (sort_key_of ord) (set rs) \<longrightarrow> rs = rs'"
      using inj_on_map_eq_map [of "sort_key_of ord" rs rs'] by blast
    with keys show "map (sort_key_of ord) rs = map (sort_key_of ord) rs'
          \<and> (inj_on (sort_key_of ord) (set rs) \<longrightarrow> rs = rs')"
      by simp
  qed
  from answers missing listed ties show ?thesis
    by - (intro conjI, assumption+)
qed

text \<open>
  The theorem at a request without \<open>boardId\<close>, and at the request for the Board \<open>b1\<close>
  of a store that has two Tasks of \<open>b1\<close>, the later one created at 9, and a Task of
  another Board: the answer lists the later Task first and not the other way round.
\<close>

theorem C7_list_tasks_witness:
  "GET_tasks ord0 store2 None (ErrorBody ''boardId query parameter is required'', 400)
   \<and> MissingParameterError (ErrorBody ''boardId query parameter is required'', 400)
   \<and> GET_tasks ord0 store4 (Some ''b1'') (TaskListBody [taskD, taskA], 200)
   \<and> \<not> GET_tasks ord0 store4 (Some ''b1'') (TaskListBody [taskA, taskD], 200)
   \<and> inj_on (sort_key_of ord0) (set [taskD, taskA])
   \<and> sorted_wrt (task_before ord0) [taskD, taskA]
   \<and> map (sort_key_of ord0) [taskD, taskA] = map (sort_key_of ord0) [taskD, taskA]"
proof -
  have m: "GET_tasks ord0 store2 None (ErrorBody ''boardId query parameter is required'', 400)"
    using list_empty_boardId by simp
  have l: "GET_tasks ord0 store4 (Some ''b1'') (TaskListBody [taskD, taskA], 200)"
    and nl: "\<not> GET_tasks ord0 store4 (Some ''b1'') (TaskListBody [taskA, taskD], 200)"
    and i: "inj_on (sort_key_of ord0) (set [taskD, taskA])"
    using list_da by simp_all
  have ne: "''b1'' \<noteq> []" by simp
  from C7_list_tasks [of ord0 store2 None
      "(ErrorBody ''boardId query parameter is required'', 400)", THEN conjunct2,
      THEN conjunct1] m
  have a: "MissingParameterError (ErrorBody ''boardId query parameter is required'', 400)"
    by simp
  from C7_list_tasks [of ord0 store4 "Some ''b1''" "(TaskListBody [taskD, taskA], 200)" "''b1''",
      THEN conjunct2, THEN conjunct2, THEN conjunct1] l ne
  have b: "sorted_wrt (task_before ord0) [taskD, taskA]"
    by simp
  from C7_list_tasks [of ord0 store4 "Some ''b1''" _ _ "[taskD, taskA]" "[taskD, taskA]",
      THEN conjunct2, THEN conjunct2, THEN conjunct2] l
  have c: "map (sort_key_of ord0) [taskD, taskA] = map (sort_key_of ord0) [taskD, taskA]"
    by simp
  from m a l nl i b c show ?thesis
    by - (intro conjI, assumption+)
qed

text \<open>
  C7 as stated fails in two places. For the Board \<open>b1\<close> of a store whose two Tasks have
  the same \<open>order\<close> and the same creation time, the list with the Task \<open>a\<close> first and
  the list with the Task \<open>b\<close> first are both answers: the order is not determined for
  equal keys. And a request with an empty \<open>boardId\<close> is answered with
  MissingParameterError, not with the list of the matching Tasks.
\<close>

theorem C7_ties_and_empty_boardId_counterexample:
  "GET_tasks ord0 store2 (Some ''b1'') (TaskListBody [taskA, taskB], 200)
   \<and> GET_tasks ord0 store2 (Some ''b1'') (TaskListBody [taskB, taskA], 200)
   \<and> [taskA, taskB] \<noteq> [taskB, taskA]
   \<and> GET_tasks ord0 store2 (Some []) (ErrorBody ''boardId query parameter is required'', 400)
   \<and> \<not> GET_tasks ord0 store2 (Some []) (TaskListBody [], 200)"
  using list_ab_ba list_empty_boardId by - (elim conjE, intro conjI, assumption+)


end
